theory Spec2Isabelle
  imports Complex_Main
begin

section \<open>Carrier integration service: a shallow embedding\<close>

text \<open>
  The development follows the TypeScript sources: the domain model
  (\<^verbatim>\<open>types/domain.ts\<close>), the error taxonomy (\<^verbatim>\<open>errors/index.ts\<close>), the transport
  client (\<^verbatim>\<open>http/client.ts\<close>), the OAuth2 token manager, the UPS adapter
  (\<^verbatim>\<open>carriers/ups.ts\<close>) and the orchestrating service (\<^verbatim>\<open>service.ts\<close>).

  Conventions of the model.
  \<^item> A JavaScript exception is a value: a function that may throw returns a sum whose
    \<open>Inl\<close> carries what was thrown. A promise that settles is its outcome.
  \<^item> A JSON property that may be absent on the wire is an \<open>option\<close>; \<open>None\<close> is
    \<^verbatim>\<open>undefined\<close>. The declared TypeScript interfaces are not enforced at run time, so the
    object-valued properties of the UPS response are all optional in the model.
  \<^item> A JavaScript number is a \<open>jsnum\<close>: an exact rational, \<^verbatim>\<open>NaN\<close> or an infinity. The
    rounding of IEEE-754 binary64 is not modelled.
  \<^item> Logging has no effect on results and is left out, except where evaluating the
    logged expression can itself throw.
  \<^item> Names are those of the source. Where two interfaces share a field name, or a name
    is taken, a prefix tells them apart: \<open>pkg_length\<close> for \<^verbatim>\<open>Package.length\<close>,
    \<open>quoteLevel\<close> for \<^verbatim>\<open>RateQuote.serviceLevel\<close>, \<open>ce_code\<close> for \<^verbatim>\<open>CarrierError.code\<close>,
    \<open>httpMethod\<close> for the \<^verbatim>\<open>method\<close> of a request, \<open>carrier_getRates\<close> for
    \<^verbatim>\<open>ICarrier.getRates\<close>.
\<close>

subsection \<open>JavaScript numbers and strings\<close>

datatype jsnum = Num rat | NaN | PosInf | NegInf

fun js_add :: "jsnum \<Rightarrow> jsnum \<Rightarrow> jsnum" where
  "js_add (Num a) (Num b) = Num (a + b)"
| "js_add NaN _ = NaN"
| "js_add _ NaN = NaN"
| "js_add PosInf NegInf = NaN"
| "js_add NegInf PosInf = NaN"
| "js_add PosInf _ = PosInf"
| "js_add _ PosInf = PosInf"
| "js_add NegInf _ = NegInf"
| "js_add _ NegInf = NegInf"


text \<open>\<^verbatim>\<open>x > 0\<close> and \<^verbatim>\<open>x <= 0\<close>; both are false at \<^verbatim>\<open>NaN\<close>.\<close>

fun js_gt0 :: "jsnum \<Rightarrow> bool" where
  "js_gt0 (Num a) = (0 < a)"
| "js_gt0 PosInf = True"
| "js_gt0 _ = False"

fun js_le0 :: "jsnum \<Rightarrow> bool" where
  "js_le0 (Num a) = (a \<le> 0)"
| "js_le0 NegInf = True"
| "js_le0 _ = False"

text \<open>Truthiness of an optional string: \<^verbatim>\<open>undefined\<close> and \<^verbatim>\<open>''\<close> are falsy.\<close>

fun truthy :: "string option \<Rightarrow> bool" where
  "truthy None = False"
| "truthy (Some s) = (s \<noteq> [])"

text \<open>\<^verbatim>\<open>`${x}`\<close> for an optional string.\<close>

fun orElse :: "string option \<Rightarrow> string \<Rightarrow> string" where
  "orElse None d = d"
| "orElse (Some s) d = (if s = [] then d else s)"

text \<open>\<^verbatim>\<open>x || d\<close> for an optional string is \<open>orElse x d\<close>.\<close>

fun interp :: "string option \<Rightarrow> string" where
  "interp None = ''undefined''"
| "interp (Some s) = s"

definition digit_char :: "nat \<Rightarrow> char" where
  "digit_char n = char_of (48 + n)"

fun string_of_nat :: "nat \<Rightarrow> string" where
  "string_of_nat n =
     (if n < 10 then [digit_char n] else string_of_nat (n div 10) @ [digit_char (n mod 10)])"

declare string_of_nat.simps [simp del]

text \<open>
  The builtin \<^verbatim>\<open>parseFloat\<close>: leading white space is skipped, then the longest prefix that
  is a decimal literal (sign, digits, fraction, exponent) or \<^verbatim>\<open>Infinity\<close> is read; with no
  such prefix the result is \<^verbatim>\<open>NaN\<close>.
\<close>

definition is_digit :: "char \<Rightarrow> bool" where
  "is_digit c = (c \<in> set ''0123456789'')"

definition digit_val :: "char \<Rightarrow> nat" where
  "digit_val c = of_char c - 48"

definition digits_val :: "string \<Rightarrow> nat" where
  "digits_val ds = foldl (\<lambda>acc c. 10 * acc + digit_val c) 0 ds"

definition is_space :: "char \<Rightarrow> bool" where
  "is_space c = (of_char c \<in> {9, 10, 11, 12, 13, 32 :: nat})"

definition read_exponent :: "string \<Rightarrow> int" where
  "read_exponent s =
     (case s of
        [] \<Rightarrow> 0
      | c # r \<Rightarrow>
          if c = CHR ''e'' \<or> c = CHR ''E'' then
            (case r of
               [] \<Rightarrow> 0
             | d # r' \<Rightarrow>
                 if d = CHR ''-'' then
                   (if takeWhile is_digit r' = [] then 0
                    else - int (digits_val (takeWhile is_digit r')))
                 else if d = CHR ''+'' then int (digits_val (takeWhile is_digit r'))
                 else int (digits_val (takeWhile is_digit r)))
          else 0)"

definition scale10 :: "rat \<Rightarrow> int \<Rightarrow> rat" where
  "scale10 x e = (if 0 \<le> e then x * 10 ^ nat e else x / 10 ^ nat (- e))"

definition read_unsigned :: "string \<Rightarrow> jsnum" where
  "read_unsigned s =
     (if take 8 s = ''Infinity'' then PosInf
      else
        let ip = takeWhile is_digit s;
            r1 = dropWhile is_digit s;
            fp = (case r1 of [] \<Rightarrow> [] | c # r \<Rightarrow>
                    if c = CHR ''.'' then takeWhile is_digit r else []);
            r2 = (case r1 of [] \<Rightarrow> [] | c # r \<Rightarrow>
                    if c = CHR ''.'' then dropWhile is_digit r else r1)
        in if ip = [] \<and> fp = [] then NaN
           else Num (scale10
                  (of_nat (digits_val ip) + of_nat (digits_val fp) / 10 ^ length fp)
                  (read_exponent r2)))"

fun js_neg :: "jsnum \<Rightarrow> jsnum" where
  "js_neg (Num a) = Num (- a)"
| "js_neg NaN = NaN"
| "js_neg PosInf = NegInf"
| "js_neg NegInf = PosInf"

definition parseFloat :: "string \<Rightarrow> jsnum" where
  "parseFloat s =
     (case dropWhile is_space s of
        [] \<Rightarrow> NaN
      | c # r \<Rightarrow>
          if c = CHR ''-'' then js_neg (read_unsigned r)
          else if c = CHR ''+'' then read_unsigned r
          else read_unsigned (c # r))"

text \<open>\<^verbatim>\<open>Buffer.from(s).toString('base64')\<close> on the bytes of \<open>s\<close>.\<close>

definition b64_alphabet :: string where
  "b64_alphabet = ''ABCDEFGHIJKLMNOPQRSTUVWXYZabcdefghijklmnopqrstuvwxyz0123456789+/''"

definition b64_char :: "nat \<Rightarrow> char" where
  "b64_char n = b64_alphabet ! (n mod 64)"

fun b64_bytes :: "nat list \<Rightarrow> string" where
  "b64_bytes [] = []"
| "b64_bytes [a] = [b64_char (a div 4), b64_char ((a mod 4) * 16), CHR ''='', CHR ''='']"
| "b64_bytes [a, b] =
     [b64_char (a div 4), b64_char ((a mod 4) * 16 + b div 16),
      b64_char ((b mod 16) * 4), CHR ''='']"
| "b64_bytes (a # b # c # rest) =
     [b64_char (a div 4), b64_char ((a mod 4) * 16 + b div 16),
      b64_char ((b mod 16) * 4 + c div 64), b64_char (c mod 64)] @ b64_bytes rest"

definition base64 :: "string \<Rightarrow> string" where
  "base64 s = b64_bytes (map of_char s)"

subsection \<open>Domain model (\<^verbatim>\<open>types/domain.ts\<close>)\<close>

record Address =
  street1 :: string
  street2 :: "string option"
  city :: string
  state :: string
  postalCode :: string
  country :: string

record Package =
  pkg_length :: jsnum
  pkg_width :: jsnum
  pkg_height :: jsnum
  pkg_weight :: jsnum

datatype ServiceLevel = OVERNIGHT | TWO_DAY | GROUND | EXPRESS | ECONOMY

datatype Currency = USD | CAD | EUR

record RateRequest =
  origin :: Address
  destination :: Address
  packages :: "Package list"
  serviceLevel :: "ServiceLevel option"

record RateQuote =
  carrier :: string
  quoteLevel :: ServiceLevel
  baseCharge :: jsnum
  discountAmount :: "jsnum option"
  finalCharge :: jsnum
  currency :: Currency
  estimatedDelivery :: "string option"
  warnings :: "string list option"

subsection \<open>The UPS wire format (\<^verbatim>\<open>carriers/ups.ts\<close>)\<close>

record UpsMoney =
  MonetaryValue :: "string option"

record UpsNegotiatedCharges =
  TotalCharge :: "UpsMoney option"
  BaseCharge :: "UpsMoney option"
  DiscountAmount :: "UpsMoney option"

record UpsRatedPackage =
  BaseServiceCharge :: "UpsMoney option"
  NegotiatedCharges :: "UpsNegotiatedCharges option"

text \<open>The shape \<^verbatim>\<open>{Code, Description}\<close> of a service, a response status and an alert.\<close>

record UpsCoded =
  Code :: "string option"
  Description :: "string option"

record UpsEstimatedArrival =
  Date :: "string option"

record UpsServiceSummary =
  EstimatedArrival :: "UpsEstimatedArrival option"

record UpsTimeInTransit =
  ServiceSummary :: "UpsServiceSummary option"

record UpsRatedShipment =
  Service :: "UpsCoded option"
  RatedPackage :: "UpsRatedPackage list option"
  TimeInTransit :: "UpsTimeInTransit option"

record UpsResponse =
  ResponseStatus :: "UpsCoded option"
  Alert :: "UpsCoded list option"

record UpsRateResponseBody =
  Response :: "UpsResponse option"
  RatedShipment :: "UpsRatedShipment list option"

record UpsRateResponse =
  RateResponse :: "UpsRateResponseBody option"

record TokenResponse =
  access_token :: "string option"
  token_type :: "string option"
  expires_in :: int

text \<open>
  What a response body can be once parsed by the HTTP library: one of the two JSON
  shapes the code reads, some other text or object (all of whose properties read as
  \<^verbatim>\<open>undefined\<close>), or \<^verbatim>\<open>null\<close>.
\<close>

datatype wire_body =
  TokenBody TokenResponse
| RateBody UpsRateResponse
| OtherBody string
| NullBody

subsection \<open>Responses of the service (\<^verbatim>\<open>types/domain.ts\<close>)\<close>

text \<open>
  \<^verbatim>\<open>details\<close> is a \<^verbatim>\<open>Record<string, unknown>\<close>. The values the code stores in it are
  strings, \<^verbatim>\<open>undefined\<close> and, in the transport client, the response body.
\<close>

datatype jsval = JString string | JUndefined | JBody wire_body

fun js_of_string :: "string option \<Rightarrow> jsval" where
  "js_of_string None = JUndefined"
| "js_of_string (Some s) = JString s"

record CarrierError =
  ce_code :: string
  ce_message :: string
  ce_details :: "(string \<times> jsval) list option"

text \<open>
  \<open>timestamp\<close> is the instant (milliseconds since the epoch) at which the response was
  built; its rendering by \<^verbatim>\<open>toISOString\<close> is not modelled.
\<close>

record RateResponse =
  timestamp :: int
  quotes :: "RateQuote list"
  errors :: "CarrierError list option"

datatype 'a Result = Success 'a | Failure CarrierError

subsection \<open>Errors (\<^verbatim>\<open>errors/index.ts\<close>)\<close>

datatype ErrorCode =
  INVALID_REQUEST | INVALID_ADDRESS | INVALID_PACKAGE
| AUTH_FAILED | INVALID_CREDENTIALS | TOKEN_EXPIRED
| NETWORK_ERROR | TIMEOUT | CONNECTION_REFUSED
| HTTP_400 | HTTP_401 | HTTP_403 | HTTP_404 | HTTP_429
| HTTP_500 | HTTP_502 | HTTP_503 | HTTP_UNKNOWN
| INVALID_RESPONSE | MALFORMED_JSON
| SERVICE_UNAVAILABLE | RATE_LIMIT_EXCEEDED
| UNKNOWN

text \<open>The string value of each member of the enum.\<close>

fun ErrorCode_value :: "ErrorCode \<Rightarrow> string" where
  "ErrorCode_value INVALID_REQUEST = ''INVALID_REQUEST''"
| "ErrorCode_value INVALID_ADDRESS = ''INVALID_ADDRESS''"
| "ErrorCode_value INVALID_PACKAGE = ''INVALID_PACKAGE''"
| "ErrorCode_value AUTH_FAILED = ''AUTH_FAILED''"
| "ErrorCode_value INVALID_CREDENTIALS = ''INVALID_CREDENTIALS''"
| "ErrorCode_value TOKEN_EXPIRED = ''TOKEN_EXPIRED''"
| "ErrorCode_value NETWORK_ERROR = ''NETWORK_ERROR''"
| "ErrorCode_value TIMEOUT = ''TIMEOUT''"
| "ErrorCode_value CONNECTION_REFUSED = ''CONNECTION_REFUSED''"
| "ErrorCode_value HTTP_400 = ''HTTP_400''"
| "ErrorCode_value HTTP_401 = ''HTTP_401''"
| "ErrorCode_value HTTP_403 = ''HTTP_403''"
| "ErrorCode_value HTTP_404 = ''HTTP_404''"
| "ErrorCode_value HTTP_429 = ''HTTP_429''"
| "ErrorCode_value HTTP_500 = ''HTTP_500''"
| "ErrorCode_value HTTP_502 = ''HTTP_502''"
| "ErrorCode_value HTTP_503 = ''HTTP_503''"
| "ErrorCode_value HTTP_UNKNOWN = ''HTTP_UNKNOWN''"
| "ErrorCode_value INVALID_RESPONSE = ''INVALID_RESPONSE''"
| "ErrorCode_value MALFORMED_JSON = ''MALFORMED_JSON''"
| "ErrorCode_value SERVICE_UNAVAILABLE = ''SERVICE_UNAVAILABLE''"
| "ErrorCode_value RATE_LIMIT_EXCEEDED = ''RATE_LIMIT_EXCEEDED''"
| "ErrorCode_value UNKNOWN = ''UNKNOWN''"

text \<open>
  What the HTTP library or the runtime can throw: an \<^verbatim>\<open>AxiosError\<close> (with its
  \<^verbatim>\<open>code\<close>, its message and, when the server answered, the response), any other
  \<^verbatim>\<open>Error\<close> (name and message), or a value that is not an \<^verbatim>\<open>Error\<close>.
\<close>

record axios_response =
  status :: nat
  data :: wire_body

datatype thrown =
  AxiosError "string option" string "axios_response option"
| NativeError string string
| NonError

fun thrown_message :: "thrown \<Rightarrow> string option" where
  "thrown_message (AxiosError c m r) = Some m"
| "thrown_message (NativeError n m) = Some m"
| "thrown_message NonError = None"

record CarrierIntegrationError =
  code :: ErrorCode
  message :: string
  details :: "(string \<times> jsval) list option"
  statusCode :: "nat option"
  originalError :: "thrown option"

definition mkError :: "ErrorCode \<Rightarrow> string \<Rightarrow> CarrierIntegrationError" where
  "mkError c m =
     \<lparr>code = c, message = m, details = None, statusCode = None, originalError = None\<rparr>"

definition toCarrierError :: "CarrierIntegrationError \<Rightarrow> CarrierError" where
  "toCarrierError e = \<lparr>ce_code = ErrorCode_value (code e), ce_message = message e,
                        ce_details = details e\<rparr>"

definition httpStatusToErrorCode :: "nat \<Rightarrow> ErrorCode" where
  "httpStatusToErrorCode st =
     (if st = 400 then HTTP_400
      else if st = 401 then HTTP_401
      else if st = 403 then HTTP_403
      else if st = 404 then HTTP_404
      else if st = 429 then HTTP_429
      else if st = 500 then HTTP_500
      else if st = 502 then HTTP_502
      else if st = 503 then HTTP_503
      else HTTP_UNKNOWN)"

definition isRetryableError :: "CarrierIntegrationError \<Rightarrow> bool" where
  "isRetryableError e =
     (code e \<in> set [TIMEOUT, NETWORK_ERROR, HTTP_429, HTTP_500, HTTP_502, HTTP_503])"

text \<open>The \<^verbatim>\<open>TypeError\<close> of reading property \<open>prop\<close> of \<^verbatim>\<open>undefined\<close> or \<^verbatim>\<open>null\<close>.\<close>

definition typeError :: "string \<Rightarrow> string \<Rightarrow> thrown" where
  "typeError what prop =
     NativeError ''TypeError''
       (''Cannot read properties of '' @ what @ '' (reading '' @ [CHR 0x27] @ prop @
        [CHR 0x27] @ '')'')"

text \<open>Anything thrown: a \<^verbatim>\<open>CarrierIntegrationError\<close> or something else.\<close>

datatype exn = Carrier CarrierIntegrationError | Other thrown

subsection \<open>Configuration, requests and the network\<close>

text \<open>
  The part of \<^verbatim>\<open>config/index.ts\<close> the code below reads. \<^verbatim>\<open>retryAttempts\<close> and
  \<^verbatim>\<open>retryDelayMs\<close> come from \<^verbatim>\<open>parseInt\<close> of an environment variable, so they are
  integers of either sign.
\<close>

record config =
  retryAttempts :: int
  retryDelayMs :: int
  clientId :: string
  clientSecret :: string
  oauth2TokenUrl :: string
  ratingApiUrl :: string

definition default_config :: config where
  "default_config =
     \<lparr>retryAttempts = 3, retryDelayMs = 1000,
      clientId = ''test_client_id'', clientSecret = ''test_client_secret'',
      oauth2TokenUrl = ''/security/v1/oauth/token'',
      ratingApiUrl = ''/rating/v2/shop/rates''\<rparr>"

text \<open>
  A request as the HTTP library receives it. The body of a rating request is the
  canonical request it is built from: the field-by-field translation of
  \<^verbatim>\<open>buildUpsRequest\<close> reads validated fields only, cannot throw, and no property below
  depends on it.
\<close>

datatype req_data = NoData | FormParams "(string \<times> string) list" | RateData RateRequest

record http_request =
  httpMethod :: string
  url :: string
  headers :: "(string \<times> string) list"
  payload :: req_data

text \<open>
  What \<^verbatim>\<open>client.request\<close> does with one request: it resolves with the response body or
  throws, after some time. The network is any function of the number of requests sent
  so far and of the request.
\<close>

datatype client_outcome = Resolved wire_body | Threw thrown

record exchange =
  took :: nat
  outcome :: client_outcome

type_synonym network = "nat \<Rightarrow> http_request \<Rightarrow> exchange"

record CachedToken =
  token :: string
  expiresAt :: int

text \<open>
  The mutable state: the clock read by \<^verbatim>\<open>Date.now()\<close>, the requests sent and the
  delays slept so far (oldest first), the token cache of the token manager, and the
  \<^verbatim>\<open>Authorization\<close> default of the adapter's HTTP client.
\<close>

record world =
  clock :: int
  sent :: "http_request list"
  slept :: "int list"
  cache :: "CachedToken option"
  authHeader :: "string option"

definition merge_headers ::
  "(string \<times> string) list \<Rightarrow> (string \<times> string) list \<Rightarrow> (string \<times> string) list" where
  "merge_headers defaults hs = hs @ filter (\<lambda>kv. fst kv \<notin> set (map fst hs)) defaults"

subsection \<open>The transport client (\<^verbatim>\<open>http/client.ts\<close>)\<close>

fun handleError :: "thrown \<Rightarrow> string \<Rightarrow> string \<Rightarrow> CarrierIntegrationError" where
  "handleError (AxiosError c m None) meth u =
     (if c = Some ''ECONNABORTED'' then
        (mkError TIMEOUT ''Request timeout'')\<lparr>originalError := Some (AxiosError c m None)\<rparr>
      else if c = Some ''ECONNREFUSED'' then
        (mkError CONNECTION_REFUSED ''Connection refused'')
          \<lparr>originalError := Some (AxiosError c m None)\<rparr>
      else (mkError NETWORK_ERROR m)\<lparr>originalError := Some (AxiosError c m None)\<rparr>)"
| "handleError (AxiosError c m (Some r)) meth u =
     (if status r \<ge> 400 then
        \<lparr>code = (if status r = 400 then HTTP_400
                 else if status r = 401 then HTTP_401
                 else if status r = 429 then HTTP_429
                 else if status r \<ge> 500 then HTTP_500
                 else HTTP_UNKNOWN),
         message = ''HTTP '' @ string_of_nat (status r) @ '': '' @ m,
         details = Some [(''data'', JBody (data r)), (''method'', JString meth),
                         (''url'', JString u)],
         statusCode = Some (status r),
         originalError = Some (AxiosError c m (Some r))\<rparr>
      else (mkError NETWORK_ERROR m)\<lparr>originalError := Some (AxiosError c m (Some r))\<rparr>)"
| "handleError (NativeError n m) meth u =
     (mkError UNKNOWN m)\<lparr>originalError := Some (NativeError n m)\<rparr>"
| "handleError NonError meth u = mkError UNKNOWN ''An unknown error occurred''"

text \<open>
  The loop of \<^verbatim>\<open>requestWithRetry\<close>, entered with \<open>attempt = 1\<close> and no
  \<^verbatim>\<open>lastError\<close>. Each attempt sends the request and lets the time of the exchange pass;
  a sleep appends its delay to \<open>slept\<close> and lets that time pass.
\<close>

function requestWithRetry_loop ::
  "config \<Rightarrow> network \<Rightarrow> http_request \<Rightarrow> int \<Rightarrow> CarrierIntegrationError option \<Rightarrow> world
   \<Rightarrow> (CarrierIntegrationError + wire_body) \<times> world" where
  "requestWithRetry_loop cfg net rq attempt lastError w =
     (if attempt \<le> retryAttempts cfg then
        (let ex = net (length (sent w)) rq;
             w1 = w\<lparr>sent := sent w @ [rq], clock := clock w + int (took ex)\<rparr>
         in case outcome ex of
              Resolved d \<Rightarrow> (Inr d, w1)
            | Threw err \<Rightarrow>
                (let e = handleError err (httpMethod rq) (url rq)
                 in if \<not> isRetryableError e \<or> attempt = retryAttempts cfg then (Inl e, w1)
                    else
                      (let delayMs = retryDelayMs cfg * 2 ^ nat (attempt - 1)
                       in requestWithRetry_loop cfg net rq (attempt + 1) (Some e)
                            (w1\<lparr>slept := slept w1 @ [delayMs],
                                clock := clock w1 + max 0 delayMs\<rparr>))))
      else
        (case lastError of
           Some e \<Rightarrow> (Inl e, w)
         | None \<Rightarrow> (Inl (mkError UNKNOWN ''Request failed after retries''), w)))"
  by pat_completeness auto
termination
  by (relation "measure (\<lambda>(cfg, net, rq, attempt, lastError, w).
        nat (retryAttempts cfg + 1 - attempt))") auto

declare requestWithRetry_loop.simps [simp del]

definition requestWithRetry ::
  "config \<Rightarrow> network \<Rightarrow> http_request \<Rightarrow> world
   \<Rightarrow> (CarrierIntegrationError + wire_body) \<times> world" where
  "requestWithRetry cfg net rq w = requestWithRetry_loop cfg net rq 1 None w"

text \<open>
  \<^verbatim>\<open>post\<close> on a client whose default headers are \<open>defaults\<close>; the headers of the call
  override them.
\<close>

definition post ::
  "config \<Rightarrow> network \<Rightarrow> (string \<times> string) list \<Rightarrow> string \<Rightarrow> req_data
   \<Rightarrow> (string \<times> string) list \<Rightarrow> world \<Rightarrow> (CarrierIntegrationError + wire_body) \<times> world" where
  "post cfg net defaults u d hs w =
     requestWithRetry cfg net
       \<lparr>httpMethod = ''POST'', url = u, headers = merge_headers defaults hs, payload = d\<rparr> w"

subsection \<open>The OAuth2 token manager\<close>

definition tokenRefreshBufferSecs :: int where
  "tokenRefreshBufferSecs = 30"

definition token_request :: "config \<Rightarrow> http_request" where
  "token_request cfg =
     \<lparr>httpMethod = ''POST'', url = oauth2TokenUrl cfg,
      headers = merge_headers [(''Content-Type'', ''application/json'')]
        [(''Authorization'', ''Basic '' @ base64 (clientId cfg @ '':'' @ clientSecret cfg)),
         (''Content-Type'', ''application/x-www-form-urlencoded'')],
      payload = FormParams [(''grant_type'', ''client_credentials'')]\<rparr>"

text \<open>
  \<^verbatim>\<open>fetchToken\<close>. A \<^verbatim>\<open>CarrierIntegrationError\<close> of the transport is rethrown as it is.
  Reading \<^verbatim>\<open>access_token\<close> of a \<^verbatim>\<open>null\<close> body throws a \<^verbatim>\<open>TypeError\<close>, which the
  \<^verbatim>\<open>catch\<close> wraps as \<^verbatim>\<open>AUTH_FAILED\<close>; a body of another shape has no \<^verbatim>\<open>access_token\<close>.
  \<^verbatim>\<open>Date.now()\<close> is read after the response has arrived.
\<close>

definition fetchToken ::
  "config \<Rightarrow> network \<Rightarrow> world \<Rightarrow> (CarrierIntegrationError + string) \<times> world" where
  "fetchToken cfg net w =
     (case requestWithRetry cfg net (token_request cfg) w of
        (Inl e, w1) \<Rightarrow> (Inl e, w1)
      | (Inr NullBody, w1) \<Rightarrow>
          (case typeError ''null'' ''access_token'' of
             NativeError n m \<Rightarrow>
               (Inl ((mkError AUTH_FAILED (''Failed to acquire OAuth2 token: '' @ m))
                     \<lparr>originalError := Some (NativeError n m)\<rparr>), w1)
           | _ \<Rightarrow> (Inl (mkError AUTH_FAILED ''Failed to acquire OAuth2 token''), w1))
      | (Inr (TokenBody r), w1) \<Rightarrow>
          (case access_token r of
             None \<Rightarrow> (Inl (mkError INVALID_RESPONSE ''Token response missing access_token''), w1)
           | Some tok \<Rightarrow>
               if tok = [] then
                 (Inl (mkError INVALID_RESPONSE ''Token response missing access_token''), w1)
               else
                 (Inr tok,
                  w1\<lparr>cache := Some \<lparr>token = tok,
                         expiresAt =
                           clock w1 + (expires_in r - tokenRefreshBufferSecs) * 1000\<rparr>\<rparr>))
      | (Inr _, w1) \<Rightarrow>
          (Inl (mkError INVALID_RESPONSE ''Token response missing access_token''), w1))"

definition getToken ::
  "config \<Rightarrow> network \<Rightarrow> world \<Rightarrow> (CarrierIntegrationError + string) \<times> world" where
  "getToken cfg net w =
     (case cache w of
        Some cached \<Rightarrow>
          if expiresAt cached > clock w then (Inr (token cached), w) else fetchToken cfg net w
      | None \<Rightarrow> fetchToken cfg net w)"

definition clearCache :: "world \<Rightarrow> world" where
  "clearCache w = w\<lparr>cache := None\<rparr>"

subsection \<open>The UPS adapter (\<^verbatim>\<open>carriers/types.ts\<close>, \<^verbatim>\<open>carriers/ups.ts\<close>)\<close>

text \<open>\<^verbatim>\<open>BaseCarrier.validateRequest\<close>; the result is the message of the \<^verbatim>\<open>Error\<close> thrown.\<close>

definition validateAddress :: "Address \<Rightarrow> string option" where
  "validateAddress a =
     (if street1 a = [] \<or> city a = [] \<or> state a = [] \<or> postalCode a = [] \<or> country a = []
      then Some ''Invalid address: missing required fields'' else None)"

definition validatePackage :: "Package \<Rightarrow> string option" where
  "validatePackage p =
     (if js_le0 (pkg_length p) \<or> js_le0 (pkg_width p) \<or> js_le0 (pkg_height p)
         \<or> js_le0 (pkg_weight p)
      then Some ''Invalid package: all dimensions and weight must be positive'' else None)"

fun validatePackages :: "Package list \<Rightarrow> string option" where
  "validatePackages [] = None"
| "validatePackages (p # ps) =
     (case validatePackage p of Some m \<Rightarrow> Some m | None \<Rightarrow> validatePackages ps)"

definition validateRequest :: "RateRequest \<Rightarrow> string option" where
  "validateRequest rq =
     (case validateAddress (origin rq) of
        Some m \<Rightarrow> Some m
      | None \<Rightarrow>
          (case validateAddress (destination rq) of
             Some m \<Rightarrow> Some m
           | None \<Rightarrow>
               if packages rq = [] then Some ''At least one package must be provided''
               else validatePackages (packages rq)))"

text \<open>
  The table of service codes, by its own six entries; a property that an object
  literal inherits from \<^verbatim>\<open>Object.prototype\<close> is not modelled.
\<close>

definition UPS_SERVICE_CODE_MAP :: "(string \<times> ServiceLevel) list" where
  "UPS_SERVICE_CODE_MAP =
     [(''01'', OVERNIGHT), (''02'', TWO_DAY), (''03'', GROUND),
      (''12'', OVERNIGHT), (''13'', EXPRESS), (''14'', EXPRESS)]"

definition lookupServiceLevel :: "string option \<Rightarrow> ServiceLevel" where
  "lookupServiceLevel c =
     (case map_of UPS_SERVICE_CODE_MAP (interp c) of Some l \<Rightarrow> l | None \<Rightarrow> GROUND)"

text \<open>\<^verbatim>\<open>parseFloat(m.MonetaryValue || '0')\<close>\<close>

definition amountOf :: "UpsMoney \<Rightarrow> jsnum" where
  "amountOf m = parseFloat (orElse (MonetaryValue m) ''0'')"

text \<open>
  The loop over \<^verbatim>\<open>RatedPackage\<close> with its three accumulators (base, discount, final).
  Negotiated charges without \<^verbatim>\<open>BaseCharge\<close> or \<^verbatim>\<open>TotalCharge\<close> throw when
  \<^verbatim>\<open>MonetaryValue\<close> is read; \<^verbatim>\<open>DiscountAmount\<close> is read with \<^verbatim>\<open>?.\<close> and may be absent.
\<close>

fun sumPackages ::
  "UpsRatedPackage list \<Rightarrow> jsnum \<times> jsnum \<times> jsnum \<Rightarrow> thrown + jsnum \<times> jsnum \<times> jsnum" where
  "sumPackages [] acc = Inr acc"
| "sumPackages (pkg # rest) (b, d, f) =
     (case NegotiatedCharges pkg of
        Some negotiated \<Rightarrow>
          (case BaseCharge negotiated of
             None \<Rightarrow> Inl (typeError ''undefined'' ''MonetaryValue'')
           | Some bc \<Rightarrow>
               (case TotalCharge negotiated of
                  None \<Rightarrow> Inl (typeError ''undefined'' ''MonetaryValue'')
                | Some tc \<Rightarrow>
                    sumPackages rest
                      (js_add b (amountOf bc),
                       js_add d (case DiscountAmount negotiated of
                                   None \<Rightarrow> parseFloat ''0''
                                 | Some dc \<Rightarrow> amountOf dc),
                       js_add f (amountOf tc))))
      | None \<Rightarrow>
          (case BaseServiceCharge pkg of
             Some bsc \<Rightarrow> sumPackages rest (js_add b (amountOf bsc), d, js_add f (amountOf bsc))
           | None \<Rightarrow> sumPackages rest (b, d, f)))"

definition estimatedArrivalDate :: "UpsRatedShipment \<Rightarrow> string option" where
  "estimatedArrivalDate sh =
     (case TimeInTransit sh of
        None \<Rightarrow> None
      | Some t \<Rightarrow>
          (case ServiceSummary t of
             None \<Rightarrow> None
           | Some ss \<Rightarrow>
               (case EstimatedArrival ss of
                  None \<Rightarrow> None
                | Some ea \<Rightarrow> if truthy (Date ea) then Date ea else None)))"

definition parseRatedShipment :: "UpsRatedShipment \<Rightarrow> thrown + RateQuote" where
  "parseRatedShipment sh =
     (case Service sh of
        None \<Rightarrow> Inl (typeError ''undefined'' ''Code'')
      | Some svc \<Rightarrow>
          (case sumPackages (case RatedPackage sh of None \<Rightarrow> [] | Some ps \<Rightarrow> ps)
                  (Num 0, Num 0, Num 0) of
             Inl err \<Rightarrow> Inl err
           | Inr (totalBaseCharge, totalDiscountAmount, final) \<Rightarrow>
               Inr \<lparr>carrier = ''ups'',
                    quoteLevel = lookupServiceLevel (Code svc),
                    baseCharge = totalBaseCharge,
                    discountAmount =
                      (if js_gt0 totalDiscountAmount then Some totalDiscountAmount else None),
                    finalCharge = final,
                    currency = USD,
                    estimatedDelivery = estimatedArrivalDate sh,
                    warnings = None\<rparr>))"

text \<open>
  The loop over \<^verbatim>\<open>RatedShipment\<close> with its \<^verbatim>\<open>try\<close>/\<^verbatim>\<open>catch\<close>. The handler logs a message built
  from \<^verbatim>\<open>shipment.Service.Code\<close>: when \<^verbatim>\<open>Service\<close> is absent, building the message throws
  again, out of the loop.
\<close>

fun parseShipments :: "UpsRatedShipment list \<Rightarrow> thrown + RateQuote list" where
  "parseShipments [] = Inr []"
| "parseShipments (sh # rest) =
     (case parseRatedShipment sh of
        Inr quote \<Rightarrow>
          (case parseShipments rest of Inl err \<Rightarrow> Inl err | Inr qs \<Rightarrow> Inr (quote # qs))
      | Inl err \<Rightarrow>
          (case Service sh of
             None \<Rightarrow> Inl (typeError ''undefined'' ''Code'')
           | Some svc \<Rightarrow> parseShipments rest))"

definition alertWarnings :: "UpsResponse \<Rightarrow> string list" where
  "alertWarnings r =
     (case Alert r of
        None \<Rightarrow> []
      | Some as \<Rightarrow> map (\<lambda>a. interp (Code a) @ '': '' @ interp (Description a)) as)"

definition parseUpsResponse :: "UpsRateResponse \<Rightarrow> int \<Rightarrow> exn + RateResponse" where
  "parseUpsResponse upsResponse now =
     (case RateResponse upsResponse of
        None \<Rightarrow> Inl (Other (typeError ''undefined'' ''Response''))
      | Some response \<Rightarrow>
          (case Response response of
             None \<Rightarrow> Inl (Carrier (mkError INVALID_RESPONSE ''Invalid UPS response structure''))
           | Some r \<Rightarrow>
               (case ResponseStatus r of
                  None \<Rightarrow> Inl (Other (typeError ''undefined'' ''Code''))
                | Some responseStatus \<Rightarrow>
                    if Code responseStatus \<noteq> Some ''0'' then
                      Inl (Carrier
                        ((mkError INVALID_RESPONSE
                            (''UPS API error: '' @ interp (Description responseStatus)))
                         \<lparr>details := Some
                            [(''code'', js_of_string (Code responseStatus)),
                             (''description'', js_of_string (Description responseStatus))]\<rparr>))
                    else
                      (case parseShipments
                              (case RatedShipment response of None \<Rightarrow> [] | Some shs \<Rightarrow> shs) of
                         Inl err \<Rightarrow> Inl (Other err)
                       | Inr qs \<Rightarrow>
                           Inr \<lparr>timestamp = now, quotes = qs,
                                errors = (if alertWarnings r \<noteq> [] then Some [] else None)\<rparr>))))"

text \<open>A promise once settled.\<close>

datatype settled = Fulfilled RateResponse | Rejected exn

text \<open>
  The \<^verbatim>\<open>catch\<close> of \<^verbatim>\<open>UpsCarrier.getRates\<close>: whatever was thrown leaves as a
  \<^verbatim>\<open>CarrierIntegrationError\<close>.
\<close>

fun ups_catch :: "exn \<Rightarrow> CarrierIntegrationError" where
  "ups_catch (Carrier e) = e"
| "ups_catch (Other t) =
     (case thrown_message t of
        Some m \<Rightarrow> (mkError INVALID_REQUEST m)\<lparr>originalError := Some t\<rparr>
      | None \<Rightarrow> mkError UNKNOWN ''Unknown error during rate request'')"

text \<open>Reading \<^verbatim>\<open>upsResponse.RateResponse\<close> and parsing, on whatever body arrived.\<close>

fun parseBody :: "wire_body \<Rightarrow> int \<Rightarrow> exn + RateResponse" where
  "parseBody (RateBody r) now = parseUpsResponse r now"
| "parseBody NullBody now = Inl (Other (typeError ''null'' ''RateResponse''))"
| "parseBody _ now = parseUpsResponse \<lparr>RateResponse = None\<rparr> now"

definition rating_defaults :: "world \<Rightarrow> (string \<times> string) list" where
  "rating_defaults w =
     (''Content-Type'', ''application/json'') #
     (case authHeader w of None \<Rightarrow> [] | Some h \<Rightarrow> [(''Authorization'', h)])"

definition UpsCarrier_getRates ::
  "config \<Rightarrow> network \<Rightarrow> RateRequest \<Rightarrow> world \<Rightarrow> settled \<times> world" where
  "UpsCarrier_getRates cfg net request w =
     (case validateRequest request of
        Some m \<Rightarrow> (Rejected (Carrier (ups_catch (Other (NativeError ''Error'' m)))), w)
      | None \<Rightarrow>
          (case getToken cfg net w of
             (Inl e, w1) \<Rightarrow> (Rejected (Carrier (ups_catch (Carrier e))), w1)
           | (Inr tok, w1) \<Rightarrow>
               (let w2 = w1\<lparr>authHeader := Some (''Bearer '' @ tok)\<rparr>
                in case post cfg net (rating_defaults w2) (ratingApiUrl cfg)
                          (RateData request) [] w2 of
                     (Inl e, w3) \<Rightarrow> (Rejected (Carrier (ups_catch (Carrier e))), w3)
                   | (Inr upsResponse, w3) \<Rightarrow>
                       (case parseBody upsResponse (clock w3) of
                          Inl x \<Rightarrow> (Rejected (Carrier (ups_catch x)), w3)
                        | Inr normalizedResponse \<Rightarrow> (Fulfilled normalizedResponse, w3)))))"

subsection \<open>Request validation (\<^verbatim>\<open>types/validation.ts\<close>)\<close>

text \<open>
  The Zod schemas on a request that already has the declared field types. The result
  is the validated request or the paths of the offending fields; the exact text of
  \<^verbatim>\<open>ZodError.message\<close> is not modelled beyond those paths.
\<close>

definition AddressSchema :: "string \<Rightarrow> Address \<Rightarrow> string list" where
  "AddressSchema path a =
     (if length (street1 a) < 1 then [path @ ''.street1''] else []) @
     (if length (city a) < 1 then [path @ ''.city''] else []) @
     (if length (state a) < 2 \<or> length (state a) > 2 then [path @ ''.state''] else []) @
     (if length (postalCode a) < 1 then [path @ ''.postalCode''] else []) @
     (if length (country a) \<noteq> 2 then [path @ ''.country''] else [])"

definition PackageSchema :: "Package \<Rightarrow> string list" where
  "PackageSchema p =
     (if js_gt0 (pkg_length p) then [] else [''packages.length'']) @
     (if js_gt0 (pkg_width p) then [] else [''packages.width'']) @
     (if js_gt0 (pkg_height p) then [] else [''packages.height'']) @
     (if js_gt0 (pkg_weight p) then [] else [''packages.weight''])"

definition RateRequestSchema_issues :: "RateRequest \<Rightarrow> string list" where
  "RateRequestSchema_issues rq =
     AddressSchema ''origin'' (origin rq) @ AddressSchema ''destination'' (destination rq) @
     (if length (packages rq) < 1 then [''packages''] else []) @
     concat (map PackageSchema (packages rq))"

definition RateRequestSchema_parse :: "RateRequest \<Rightarrow> string list + RateRequest" where
  "RateRequestSchema_parse rq =
     (if RateRequestSchema_issues rq = [] then Inr rq else Inl (RateRequestSchema_issues rq))"

definition zod_message :: "string list \<Rightarrow> string" where
  "zod_message issues = concat (map (\<lambda>p. p @ ''; '') issues)"

subsection \<open>The service (\<^verbatim>\<open>service.ts\<close>)\<close>

text \<open>
  An adapter is its name and what its \<^verbatim>\<open>getRates\<close> settles to on a request: like the
  adapter of the repository it is an \<^verbatim>\<open>async\<close> function, which returns a promise and
  never throws before returning it, and the promise settles. The registry is a
  JavaScript \<^verbatim>\<open>Map\<close>: keys in insertion order, a key set again keeps its place.
\<close>

record ICarrier =
  name :: string
  carrier_getRates :: "RateRequest \<Rightarrow> settled"

type_synonym registry = "(string \<times> ICarrier) list"

fun map_set :: "string \<Rightarrow> ICarrier \<Rightarrow> registry \<Rightarrow> registry" where
  "map_set k c [] = [(k, c)]"
| "map_set k c ((k', c') # r) = (if k' = k then (k, c) # r else (k', c') # map_set k c r)"

definition registerCarrier :: "ICarrier \<Rightarrow> registry \<Rightarrow> registry" where
  "registerCarrier c reg = map_set (name c) c reg"

definition getAvailableCarriers :: "registry \<Rightarrow> string list" where
  "getAvailableCarriers reg = map fst reg"

text \<open>The loop over the settled results, with its two accumulators.\<close>

fun aggregate ::
  "settled list \<Rightarrow> RateQuote list \<Rightarrow> CarrierError list \<Rightarrow> RateQuote list \<times> CarrierError list"
  where
  "aggregate [] allQuotes errs = (allQuotes, errs)"
| "aggregate (Fulfilled v # rs) allQuotes errs = aggregate rs (allQuotes @ quotes v) errs"
| "aggregate (Rejected (Carrier e) # rs) allQuotes errs =
     aggregate rs allQuotes (errs @ [toCarrierError e])"
| "aggregate (Rejected (Other t) # rs) allQuotes errs = aggregate rs allQuotes errs"

text \<open>
  \<^verbatim>\<open>getRates\<close> at the instant \<open>now\<close>: \<open>Inl\<close> is the rejection of the returned promise.
\<close>

definition getRates ::
  "registry \<Rightarrow> int \<Rightarrow> RateRequest \<Rightarrow> CarrierIntegrationError + RateResponse" where
  "getRates reg now request =
     (case RateRequestSchema_parse request of
        Inl issues \<Rightarrow>
          Inl ((mkError INVALID_REQUEST ''Invalid rate request format'')
               \<lparr>details := Some [(''message'', JString (zod_message issues))]\<rparr>)
      | Inr validatedRequest \<Rightarrow>
          (case aggregate (map (\<lambda>kc. carrier_getRates (snd kc) validatedRequest) reg) [] [] of
             (allQuotes, errs) \<Rightarrow>
               Inr \<lparr>timestamp = now, quotes = allQuotes,
                    errors = (if length errs > 0 then Some errs else None)\<rparr>))"

definition getRatesFromCarrier ::
  "registry \<Rightarrow> string \<Rightarrow> RateRequest \<Rightarrow> RateResponse Result" where
  "getRatesFromCarrier reg carrierName request =
     (case map_of reg carrierName of
        None \<Rightarrow>
          Failure \<lparr>ce_code = ''CARRIER_NOT_FOUND'',
                   ce_message = ''Carrier '' @ [CHR 0x27] @ carrierName @ [CHR 0x27] @
                                '' is not registered'',
                   ce_details = None\<rparr>
      | Some c \<Rightarrow>
          (case RateRequestSchema_parse request of
             Inl issues \<Rightarrow>
               Failure \<lparr>ce_code = ''UNKNOWN'', ce_message = zod_message issues,
                        ce_details = None\<rparr>
           | Inr validatedRequest \<Rightarrow>
               (case carrier_getRates c validatedRequest of
                  Fulfilled response \<Rightarrow> Success response
                | Rejected (Carrier e) \<Rightarrow> Failure (toCarrierError e)
                | Rejected (Other t) \<Rightarrow>
                    Failure \<lparr>ce_code = ''UNKNOWN'',
                             ce_message = (case thrown_message t of
                                             Some m \<Rightarrow> m | None \<Rightarrow> ''Unknown error''),
                             ce_details = None\<rparr>)))"



text \<open>The UPS adapter as a registered carrier, its calls starting from the state \<open>w\<close>.\<close>

definition UpsCarrier :: "config \<Rightarrow> network \<Rightarrow> world \<Rightarrow> ICarrier" where
  "UpsCarrier cfg net w =
     \<lparr>name = ''ups'', carrier_getRates = (\<lambda>request. fst (UpsCarrier_getRates cfg net request w))\<rparr>"

text \<open>The number of requests sent to the token endpoint so far.\<close>

definition token_calls :: "config \<Rightarrow> world \<Rightarrow> nat" where
  "token_calls cfg w = length (filter (\<lambda>rq. url rq = oauth2TokenUrl cfg) (sent w))"

subsection \<open>Example values\<close>

text \<open>The request of \<^verbatim>\<open>buildValidRateRequest\<close> in the integration tests, and one without packages.\<close>

definition valid_request :: RateRequest where
  "valid_request =
     \<lparr>origin = \<lparr>street1 = ''123 Main St'', street2 = None, city = ''New York'',
                 state = ''NY'', postalCode = ''10001'', country = ''US''\<rparr>,
      destination = \<lparr>street1 = ''456 Park Ave'', street2 = None, city = ''Los Angeles'',
                      state = ''CA'', postalCode = ''90001'', country = ''US''\<rparr>,
      packages = [\<lparr>pkg_length = Num 10, pkg_width = Num 10, pkg_height = Num 10,
                   pkg_weight = Num 5\<rparr>],
      serviceLevel = None\<rparr>"

definition no_packages_request :: RateRequest where
  "no_packages_request = valid_request\<lparr>packages := []\<rparr>"

text \<open>A network that answers the \<open>i\<close>-th request with the \<open>i\<close>-th entry of a script.\<close>

definition no_match :: exchange where
  "no_match = \<lparr>took = 0, outcome = Threw (AxiosError None ''No match for request'' None)\<rparr>"

fun scripted :: "exchange list \<Rightarrow> network" where
  "scripted [] i rq = no_match"
| "scripted (x # xs) 0 rq = x"
| "scripted (x # xs) (Suc i) rq = scripted xs i rq"

definition http_error :: "nat \<Rightarrow> string \<Rightarrow> exchange" where
  "http_error st txt =
     \<lparr>took = 5,
      outcome = Threw (AxiosError (Some (if st \<ge> 500 then ''ERR_BAD_RESPONSE'' else ''ERR_BAD_REQUEST''))
                  (''Request failed with status code '' @ string_of_nat st)
                  (Some \<lparr>status = st, data = OtherBody txt\<rparr>))\<rparr>"

definition http_ok :: "wire_body \<Rightarrow> exchange" where
  "http_ok b = \<lparr>took = 5, outcome = Resolved b\<rparr>"

definition token_ok :: exchange where
  "token_ok = http_ok (TokenBody \<lparr>access_token = Some ''test_token'',
                                  token_type = Some ''Bearer'', expires_in = 3600\<rparr>)"

definition fresh_world :: world where
  "fresh_world = \<lparr>clock = 1700000000000, sent = [], slept = [], cache = None, authHeader = None\<rparr>"

definition ups_status :: "string \<Rightarrow> string \<Rightarrow> UpsResponse" where
  "ups_status c d =
     \<lparr>ResponseStatus = Some \<lparr>Code = Some c, Description = Some d\<rparr>, Alert = None\<rparr>"

definition base_package :: "string \<Rightarrow> UpsRatedPackage" where
  "base_package v =
     \<lparr>BaseServiceCharge = Some \<lparr>MonetaryValue = Some v\<rparr>, NegotiatedCharges = None\<rparr>"


definition rated_shipment :: "string \<Rightarrow> UpsRatedPackage list \<Rightarrow> UpsRatedShipment" where
  "rated_shipment c ps =
     \<lparr>Service = Some \<lparr>Code = Some c, Description = None\<rparr>, RatedPackage = Some ps,
      TimeInTransit = None\<rparr>"

text \<open>
  The network of the test \<^verbatim>\<open>should reuse cached token for multiple requests\<close>: one
  token response, then two successful rating responses without rated shipments.
\<close>

definition empty_rates :: wire_body where
  "empty_rates =
     RateBody \<lparr>RateResponse = Some \<lparr>Response = Some (ups_status ''0'' ''Success''),
                                    RatedShipment = Some []\<rparr>\<rparr>"

definition reuse_net :: network where
  "reuse_net = scripted [token_ok, http_ok empty_rates, http_ok empty_rates]"





section \<open>Properties\<close>

subsection \<open>The service: lookup of a single carrier\<close>

lemma no_packages_request_invalid:
  "RateRequestSchema_parse no_packages_request = Inl [''packages'']"
  by (simp add: RateRequestSchema_parse_def RateRequestSchema_issues_def
      no_packages_request_def valid_request_def AddressSchema_def)

lemma registered_carrier_validates:
  "getRatesFromCarrier [(''ups'', UpsCarrier default_config (scripted []) fresh_world)]
     ''ups'' no_packages_request =
   Failure \<lparr>ce_code = ''UNKNOWN'', ce_message = ''packages; '', ce_details = None\<rparr>"
  by (simp add: getRatesFromCarrier_def no_packages_request_invalid zod_message_def)

text \<open>
  C10. For a carrier name that is not registered, \<^verbatim>\<open>getRatesFromCarrier\<close> returns the
  failure \<^verbatim>\<open>CARRIER_NOT_FOUND\<close> whatever the request is: the registry is looked up
  before the request is validated, so a malformed request does not change the result.
\<close>

theorem getRatesFromCarrier_not_found:
  "carrierName \<notin> set (getAvailableCarriers reg) \<Longrightarrow>
   getRatesFromCarrier reg carrierName request =
     Failure \<lparr>ce_code = ''CARRIER_NOT_FOUND'',
              ce_message = ''Carrier '' @ [CHR 0x27] @ carrierName @ [CHR 0x27] @
                           '' is not registered'',
              ce_details = None\<rparr>"
proof -
  assume "carrierName \<notin> set (getAvailableCarriers reg)"
  then have "map_of reg carrierName = None"
    by (simp add: getAvailableCarriers_def map_of_eq_None_iff)
  then show ?thesis by (simp add: getRatesFromCarrier_def)
qed

text \<open>
  At a request without packages, which validation rejects, and a registry that holds
  only the UPS adapter, the name \<^verbatim>\<open>fedex\<close> is not found.
\<close>

theorem getRatesFromCarrier_not_found_witness:
  "''fedex'' \<notin> set (getAvailableCarriers
       [(''ups'', UpsCarrier default_config (scripted []) fresh_world)]) \<and>
   RateRequestSchema_parse no_packages_request = Inl [''packages''] \<and>
   getRatesFromCarrier [(''ups'', UpsCarrier default_config (scripted []) fresh_world)]
       ''fedex'' no_packages_request =
     Failure \<lparr>ce_code = ''CARRIER_NOT_FOUND'',
              ce_message = ''Carrier '' @ [CHR 0x27] @ ''fedex'' @ [CHR 0x27] @
                           '' is not registered'',
              ce_details = None\<rparr>"
proof -
  have h: "''fedex'' \<notin> set (getAvailableCarriers
       [(''ups'', UpsCarrier default_config (scripted []) fresh_world)])"
    by (simp add: getAvailableCarriers_def)
  show ?thesis
    using h getRatesFromCarrier_not_found [OF h, of no_packages_request]
      no_packages_request_invalid
    by simp
qed

subsection \<open>The transport client: classification of failures\<close>

lemma handleError_codes:
  "code (handleError err meth u) \<in>
     {TIMEOUT, CONNECTION_REFUSED, NETWORK_ERROR, HTTP_400, HTTP_401, HTTP_429, HTTP_500,
      HTTP_UNKNOWN, UNKNOWN}"
proof (cases err)
  case (AxiosError c m r)
  then show ?thesis by (cases r) (simp_all add: mkError_def)
next
  case (NativeError n m)
  then show ?thesis by (simp add: mkError_def)
next
  case NonError
  then show ?thesis by (simp add: mkError_def)
qed

lemma handleError_status:
  "400 \<le> status r \<Longrightarrow>
   code (handleError (AxiosError c m (Some r)) meth u) =
     (if status r = 400 then HTTP_400 else if status r = 401 then HTTP_401
      else if status r = 429 then HTTP_429 else if 500 \<le> status r then HTTP_500
      else HTTP_UNKNOWN) \<and>
   statusCode (handleError (AxiosError c m (Some r)) meth u) = Some (status r) \<and>
   details (handleError (AxiosError c m (Some r)) meth u) =
     Some [(''data'', JBody (data r)), (''method'', JString meth), (''url'', JString u)] \<and>
   originalError (handleError (AxiosError c m (Some r)) meth u) =
     Some (AxiosError c m (Some r))"
  by simp

text \<open>
  C5. The claim maps status 403 to the 403-keyed code and 404 to the 404-keyed code, as
  \<^verbatim>\<open>httpStatusToErrorCode\<close> does. The transport client does not call that helper: its
  own chain of conditionals in \<^verbatim>\<open>handleError\<close> knows 400, 401, 429 and \<open>\<ge> 500\<close> only, so a
  403 is classified \<^verbatim>\<open>HTTP_UNKNOWN\<close> (and so is a 404, while 502 and 503 become
  \<^verbatim>\<open>HTTP_500\<close>).
\<close>

theorem handleError_misses_status_codes:
  "code (handleError (AxiosError (Some ''ERR_BAD_REQUEST'')
            ''Request failed with status code 403''
            (Some \<lparr>status = 403, data = OtherBody ''Forbidden''\<rparr>))
          ''POST'' ''/rating/v2/shop/rates'') = HTTP_UNKNOWN \<and>
   httpStatusToErrorCode 403 = HTTP_403 \<and>
   code (handleError (AxiosError (Some ''ERR_BAD_REQUEST'')
            ''Request failed with status code 404''
            (Some \<lparr>status = 404, data = OtherBody ''Not Found''\<rparr>))
          ''POST'' ''/rating/v2/shop/rates'') = HTTP_UNKNOWN \<and>
   httpStatusToErrorCode 404 = HTTP_404 \<and>
   code (handleError (AxiosError (Some ''ERR_BAD_RESPONSE'')
            ''Request failed with status code 503''
            (Some \<lparr>status = 503, data = OtherBody ''Service Unavailable''\<rparr>))
          ''POST'' ''/rating/v2/shop/rates'') = HTTP_500 \<and>
   httpStatusToErrorCode 503 = HTTP_503"
  by (simp add: httpStatusToErrorCode_def)

subsection \<open>The transport client: the retry loop\<close>

text \<open>One step of the loop, case by case.\<close>

lemma loop_resolved:
  "attempt \<le> retryAttempts cfg \<Longrightarrow> outcome (net (length (sent w)) rq) = Resolved d \<Longrightarrow>
   requestWithRetry_loop cfg net rq attempt lastError w =
     (Inr d, w\<lparr>sent := sent w @ [rq],
               clock := clock w + int (took (net (length (sent w)) rq))\<rparr>)"
  by (subst requestWithRetry_loop.simps) (simp add: Let_def)

lemma loop_raise:
  "attempt \<le> retryAttempts cfg \<Longrightarrow> outcome (net (length (sent w)) rq) = Threw err \<Longrightarrow>
   \<not> isRetryableError (handleError err (httpMethod rq) (url rq)) \<or> attempt = retryAttempts cfg \<Longrightarrow>
   requestWithRetry_loop cfg net rq attempt lastError w =
     (Inl (handleError err (httpMethod rq) (url rq)),
      w\<lparr>sent := sent w @ [rq], clock := clock w + int (took (net (length (sent w)) rq))\<rparr>)"
  by (subst requestWithRetry_loop.simps) (auto simp add: Let_def)

lemma loop_retry:
  "attempt < retryAttempts cfg \<Longrightarrow> outcome (net (length (sent w)) rq) = Threw err \<Longrightarrow>
   isRetryableError (handleError err (httpMethod rq) (url rq)) \<Longrightarrow>
   requestWithRetry_loop cfg net rq attempt lastError w =
     requestWithRetry_loop cfg net rq (attempt + 1)
       (Some (handleError err (httpMethod rq) (url rq)))
       (w\<lparr>sent := sent w @ [rq],
          slept := slept w @ [retryDelayMs cfg * 2 ^ nat (attempt - 1)],
          clock := clock w + int (took (net (length (sent w)) rq)) +
                   max 0 (retryDelayMs cfg * 2 ^ nat (attempt - 1))\<rparr>)"
  by (subst requestWithRetry_loop.simps) (simp add: Let_def)

lemma loop_exhausted:
  "\<not> attempt \<le> retryAttempts cfg \<Longrightarrow>
   requestWithRetry_loop cfg net rq attempt lastError w =
     (case lastError of
        Some e \<Rightarrow> (Inl e, w)
      | None \<Rightarrow> (Inl (mkError UNKNOWN ''Request failed after retries''), w))"
  by (subst requestWithRetry_loop.simps) simp

text \<open>
  What a run of the loop does, entered at \<open>attempt\<close> within the limit: it makes
  \<open>Suc n\<close> attempts, all but the last of which failed with a retryable error; it sleeps
  after each of those; the last attempt decides the result.
\<close>

lemma upt_shift: "f 0 # map (\<lambda>k. f (Suc k)) [0..<m] = map f [0..<Suc m]"
  by (simp add: upt_conv_Cons map_Suc_upt [symmetric] del: upt_Suc)

lemma loop_run:
  "requestWithRetry_loop cfg net rq attempt lastError w = (r, w') \<Longrightarrow>
   1 \<le> attempt \<Longrightarrow> attempt \<le> retryAttempts cfg \<Longrightarrow>
   \<exists>n. int n \<le> retryAttempts cfg - attempt \<and>
       sent w' = sent w @ replicate (Suc n) rq \<and>
       slept w' = slept w @ map (\<lambda>k. retryDelayMs cfg * 2 ^ (nat (attempt - 1) + k)) [0..<n] \<and>
       cache w' = cache w \<and> authHeader w' = authHeader w \<and> clock w \<le> clock w' \<and>
       (\<forall>i<n. \<exists>err. outcome (net (length (sent w) + i) rq) = Threw err \<and>
                 isRetryableError (handleError err (httpMethod rq) (url rq))) \<and>
       (case outcome (net (length (sent w) + n) rq) of
          Resolved d \<Rightarrow> r = Inr d
        | Threw err \<Rightarrow> r = Inl (handleError err (httpMethod rq) (url rq)) \<and>
            (\<not> isRetryableError (handleError err (httpMethod rq) (url rq)) \<or>
             attempt + int n = retryAttempts cfg))"
proof (induction cfg net rq attempt lastError w rule: requestWithRetry_loop.induct)
  case (1 cfg net rq attempt lastError w)
  let ?ex = "net (length (sent w)) rq"
  let ?w1 = "w\<lparr>sent := sent w @ [rq], clock := clock w + int (took ?ex)\<rparr>"
  show ?case
  proof (cases "outcome ?ex")
    case (Resolved d)
    with "1.prems" have "r = Inr d" "w' = ?w1"
      by (simp_all add: loop_resolved)
    with Resolved show ?thesis
      using "1.prems"(3) by (intro exI [of _ 0]) simp
  next
    case (Threw err)
    let ?e = "handleError err (httpMethod rq) (url rq)"
    show ?thesis
    proof (cases "\<not> isRetryableError ?e \<or> attempt = retryAttempts cfg")
      case True
      with Threw "1.prems" have "r = Inl ?e" "w' = ?w1"
        by (simp_all add: loop_raise)
      with Threw True show ?thesis
        using "1.prems"(3) by (intro exI [of _ 0]) auto
    next
      case False
      let ?d = "retryDelayMs cfg * 2 ^ nat (attempt - 1)"
      let ?w2 = "?w1\<lparr>slept := slept ?w1 @ [?d], clock := clock ?w1 + max 0 ?d\<rparr>"
      from False have retry: "isRetryableError ?e" and lt: "attempt < retryAttempts cfg"
        using "1.prems"(3) by auto
      have run: "requestWithRetry_loop cfg net rq (attempt + 1) (Some ?e) ?w2 = (r, w')"
        using "1.prems"(1) lt Threw retry
          loop_retry [where attempt = attempt and cfg = cfg and net = net and w = w
            and rq = rq and err = err and lastError = lastError]
        by simp
      from "1.IH" [OF "1.prems"(3) refl refl Threw refl False refl run] "1.prems"(2) lt
      obtain n where n: "int n \<le> retryAttempts cfg - (attempt + 1)"
        "sent w' = sent ?w2 @ replicate (Suc n) rq"
        "slept w' = slept ?w2 @ map (\<lambda>k. retryDelayMs cfg * 2 ^ (nat (attempt + 1 - 1) + k)) [0..<n]"
        "cache w' = cache ?w2" "authHeader w' = authHeader ?w2" "clock ?w2 \<le> clock w'"
        "\<forall>i<n. \<exists>err. outcome (net (length (sent ?w2) + i) rq) = Threw err \<and>
                 isRetryableError (handleError err (httpMethod rq) (url rq))"
        "case outcome (net (length (sent ?w2) + n) rq) of
          Resolved d \<Rightarrow> r = Inr d
        | Threw err \<Rightarrow> r = Inl (handleError err (httpMethod rq) (url rq)) \<and>
            (\<not> isRetryableError (handleError err (httpMethod rq) (url rq)) \<or>
             attempt + 1 + int n = retryAttempts cfg)"
        by auto
      have a: "nat (attempt + 1 - 1) = Suc (nat (attempt - 1))"
        using "1.prems"(2) by simp
      have s: "slept w' = slept w @ map (\<lambda>k. retryDelayMs cfg * 2 ^ (nat (attempt - 1) + k)) [0..<Suc n]"
        using n(3) unfolding a
        using upt_shift [of "\<lambda>k. retryDelayMs cfg * 2 ^ (nat (attempt - 1) + k)" n]
        by simp
      have f: "\<forall>i<Suc n. \<exists>err. outcome (net (length (sent w) + i) rq) = Threw err \<and>
                 isRetryableError (handleError err (httpMethod rq) (url rq))"
      proof (intro allI impI)
        fix i assume "i < Suc n"
        show "\<exists>err. outcome (net (length (sent w) + i) rq) = Threw err \<and>
                 isRetryableError (handleError err (httpMethod rq) (url rq))"
        proof (cases i)
          case 0
          with Threw retry show ?thesis by auto
        next
          case (Suc j)
          with \<open>i < Suc n\<close> n(7) show ?thesis by auto
        qed
      qed
      show ?thesis
        apply (intro exI [of _ "Suc n"])
        using n(1,2,4,5,6,8) s f by (auto simp: replicate_app_Cons_same split: client_outcome.splits)
    qed
  qed
qed


lemma requestWithRetry_disabled:
  "retryAttempts cfg < 1 \<Longrightarrow>
   requestWithRetry cfg net rq w = (Inl (mkError UNKNOWN ''Request failed after retries''), w)"
  by (simp add: requestWithRetry_def loop_exhausted)

text \<open>
  C7. The delays slept during a request are, in order, \<open>retryDelayMs * 2 ^ (attempt - 1)\<close>
  for \<open>attempt = 1, 2, \<dots>\<close>, one after each failed attempt that is retried, and nothing
  else: the delay is exact, with no jitter.
\<close>

theorem retry_delays_exponential:
  "requestWithRetry cfg net rq w = (r, w') \<Longrightarrow>
   slept w' = slept w @
     map (\<lambda>attempt. retryDelayMs cfg * 2 ^ (attempt - 1))
       [1 ..< length (sent w') - length (sent w)]"
proof (cases "1 \<le> retryAttempts cfg")
  case False
  assume "requestWithRetry cfg net rq w = (r, w')"
  with False have "w' = w" by (simp add: requestWithRetry_disabled)
  then show ?thesis by simp
next
  case True
  assume "requestWithRetry cfg net rq w = (r, w')"
  then have "requestWithRetry_loop cfg net rq 1 None w = (r, w')"
    by (simp add: requestWithRetry_def)
  from loop_run [OF this _ True]
  obtain n where n: "sent w' = sent w @ replicate (Suc n) rq"
    "slept w' = slept w @ map (\<lambda>k. retryDelayMs cfg * 2 ^ (nat (1 - 1) + k)) [0..<n]"
    by auto
  have "[1 ..< length (sent w') - length (sent w)] = map Suc [0..<n]"
    using n(1) by (simp add: map_Suc_upt del: upt_Suc)
  with n(2) show ?thesis by (simp add: comp_def del: upt_Suc)
qed

text \<open>A 503 and a 429 followed by a success, with the default configuration.\<close>

theorem retry_delays_exponential_witness:
  "slept (snd (requestWithRetry default_config
        (scripted [http_error 503 ''Service Unavailable'',
                   http_error 429 ''Too Many Requests'', token_ok])
        (token_request default_config) fresh_world)) = [1000 * 2 ^ 0, 1000 * 2 ^ 1]"
proof -
  let ?run = "requestWithRetry default_config
        (scripted [http_error 503 ''Service Unavailable'',
                   http_error 429 ''Too Many Requests'', token_ok])
        (token_request default_config) fresh_world"
  have h: "?run = (fst ?run, snd ?run)" by simp
  have l: "length (sent (snd ?run)) = 3" by code_simp
  have u: "[1 ..< 3] = [1, 2 :: nat]" by (simp add: upt_rec)
  show ?thesis
    using retry_delays_exponential [OF h] l u
    by (simp add: fresh_world_def default_config_def)
qed





subsection \<open>The UPS adapter: charges of a rated service\<close>







subsection \<open>The UPS adapter: normalizing a response\<close>

text \<open>
  An entry whose \<^verbatim>\<open>Service\<close> object is present and whose parse fails is skipped, and the
  entries after it are still parsed; a service code outside the table maps to
  \<^verbatim>\<open>GROUND\<close>.
\<close>

lemma parseShipments_skips:
  "\<forall>sh\<in>set shs. Service sh \<noteq> None \<Longrightarrow>
   parseShipments shs =
     Inr (concat (map (\<lambda>sh. case parseRatedShipment sh of Inr q \<Rightarrow> [q] | Inl err \<Rightarrow> []) shs))"
  by (induction shs) (auto split: sum.splits)

lemma lookupServiceLevel_default:
  "interp c \<notin> set [''01'', ''02'', ''03'', ''12'', ''13'', ''14''] \<Longrightarrow> lookupServiceLevel c = GROUND"
  by (simp add: lookupServiceLevel_def UPS_SERVICE_CODE_MAP_def)

text \<open>
  C8. The claim says that a parse failure on one entry never aborts the others. The
  \<^verbatim>\<open>catch\<close> block of the loop builds its log message from \<^verbatim>\<open>shipment.Service.Code\<close>. When
  the entry failed because it has no \<^verbatim>\<open>Service\<close> object, that expression throws again,
  inside the handler: the loop is left, the quote of the well-formed entry that follows
  is lost, and the adapter rejects with \<^verbatim>\<open>INVALID_REQUEST\<close>.
\<close>

theorem parseShipments_missing_service_aborts:
  "parseShipments
     [\<lparr>Service = None, RatedPackage = Some [base_package ''15.00''], TimeInTransit = None\<rparr>,
      rated_shipment ''03'' [base_package ''25.00'']] =
     Inl (typeError ''undefined'' ''Code'') \<and>
   parseShipments [rated_shipment ''03'' [base_package ''25.00'']] =
     Inr [\<lparr>carrier = ''ups'', quoteLevel = GROUND, baseCharge = Num 25, discountAmount = None,
           finalCharge = Num 25, currency = USD, estimatedDelivery = None, warnings = None\<rparr>] \<and>
   fst (UpsCarrier_getRates default_config
      (scripted [token_ok,
         http_ok (RateBody \<lparr>RateResponse = Some
           \<lparr>Response = Some (ups_status ''0'' ''Success''),
            RatedShipment = Some
              [\<lparr>Service = None, RatedPackage = Some [base_package ''15.00''],
                TimeInTransit = None\<rparr>,
               rated_shipment ''03'' [base_package ''25.00'']]\<rparr>\<rparr>)])
      valid_request fresh_world) =
     Rejected (Carrier ((mkError INVALID_REQUEST
        (''Cannot read properties of undefined (reading '' @ [CHR 0x27] @ ''Code'' @
         [CHR 0x27] @ '')''))
       \<lparr>originalError := Some (typeError ''undefined'' ''Code'')\<rparr>))"
  by code_simp

text \<open>
  Whatever alerts a successful response carries, the normalized response holds none of
  their text: \<open>errors\<close> is absent or the empty list, and no quote has \<open>warnings\<close>.
\<close>

lemma parseRatedShipment_warnings:
  "parseRatedShipment sh = Inr q \<Longrightarrow> warnings q = None"
  by (auto simp add: parseRatedShipment_def split: option.splits sum.splits)

lemma parseShipments_warnings:
  "parseShipments shs = Inr qs \<Longrightarrow> \<forall>q\<in>set qs. warnings q = None"
proof (induction shs arbitrary: qs)
  case Nil
  then show ?case by simp
next
  case (Cons sh shs)
  then show ?case
    by (auto split: sum.splits option.splits dest: parseRatedShipment_warnings)
qed

lemma parseUpsResponse_drops_alerts:
  "parseUpsResponse u now = Inr resp \<Longrightarrow>
   (errors resp = None \<or> errors resp = Some []) \<and> (\<forall>q\<in>set (quotes resp). warnings q = None)"
  by (auto simp add: parseUpsResponse_def
      split: option.splits if_splits sum.splits dest: parseShipments_warnings)

text \<open>
  C9. The claim says the normalized response carries the advisory messages. The code
  computes them (\<open>alertWarnings\<close>) and then only tests whether there are any: the response
  gets an empty \<open>errors\<close> list and the messages are dropped.
\<close>

theorem parseUpsResponse_alert_dropped:
  "alertWarnings ((ups_status ''0'' ''Success'')
      \<lparr>Alert := Some [\<lparr>Code = Some ''110971'',
                        Description = Some ''Your invoice may vary''\<rparr>]\<rparr>) =
     [''110971: Your invoice may vary''] \<and>
   parseUpsResponse
     \<lparr>RateResponse = Some
        \<lparr>Response = Some ((ups_status ''0'' ''Success'')
           \<lparr>Alert := Some [\<lparr>Code = Some ''110971'',
                             Description = Some ''Your invoice may vary''\<rparr>]\<rparr>),
         RatedShipment = Some [rated_shipment ''03'' [base_package ''25.00'']]\<rparr>\<rparr> 0 =
     Inr \<lparr>timestamp = 0,
          quotes = [\<lparr>carrier = ''ups'', quoteLevel = GROUND, baseCharge = Num 25,
                     discountAmount = None, finalCharge = Num 25, currency = USD,
                     estimatedDelivery = None, warnings = None\<rparr>],
          errors = Some []\<rparr>"
  by code_simp

text \<open>
  When the envelope \<^verbatim>\<open>RateResponse\<close> is present: a missing \<^verbatim>\<open>Response\<close> object, and a
  status whose code is not \<^verbatim>\<open>"0"\<close>, raise \<^verbatim>\<open>INVALID_RESPONSE\<close>, the latter with the carrier's
  code and description. The adapter only ever rejects with a
  \<^verbatim>\<open>CarrierIntegrationError\<close>.
\<close>

lemma parseUpsResponse_missing_status:
  "Response body = None \<Longrightarrow>
   parseUpsResponse \<lparr>RateResponse = Some body\<rparr> now =
     Inl (Carrier (mkError INVALID_RESPONSE ''Invalid UPS response structure''))"
  by (simp add: parseUpsResponse_def)

lemma parseUpsResponse_failure_status:
  "Response body = Some r \<Longrightarrow> ResponseStatus r = Some st \<Longrightarrow> Code st \<noteq> Some ''0'' \<Longrightarrow>
   parseUpsResponse \<lparr>RateResponse = Some body\<rparr> now =
     Inl (Carrier ((mkError INVALID_RESPONSE (''UPS API error: '' @ interp (Description st)))
            \<lparr>details := Some [(''code'', js_of_string (Code st)),
                              (''description'', js_of_string (Description st))]\<rparr>))"
  by (simp add: parseUpsResponse_def)

lemma UpsCarrier_rejects_structured:
  "fst (UpsCarrier_getRates cfg net request w) = Rejected x \<Longrightarrow> \<exists>e. x = Carrier e"
  by (auto simp add: UpsCarrier_getRates_def Let_def split: option.splits prod.splits sum.splits)

text \<open>
  C2. The claim says a response without its status object surfaces as one error of the
  response-parsing kind. For the body of the integration test \<^verbatim>\<open>should handle malformed UPS
  response\<close>, which has no \<^verbatim>\<open>RateResponse\<close> at all, and for a \<^verbatim>\<open>Response\<close> object
  without \<^verbatim>\<open>ResponseStatus\<close>, the guard \<^verbatim>\<open>!response.Response\<close> is not what fails: reading a
  property of \<^verbatim>\<open>undefined\<close> throws a \<^verbatim>\<open>TypeError\<close>, which the adapter's \<^verbatim>\<open>catch\<close> wraps as
  \<^verbatim>\<open>INVALID_REQUEST\<close>. The service returns zero quotes and one error, whose code blames
  the request.
\<close>

theorem malformed_response_is_invalid_request:
  "getRates
     [(''ups'', UpsCarrier default_config
         (scripted [token_ok, http_ok (RateBody \<lparr>RateResponse = None\<rparr>)]) fresh_world)]
     0 valid_request =
   Inr \<lparr>timestamp = 0, quotes = [],
        errors = Some [\<lparr>ce_code = ''INVALID_REQUEST'',
                        ce_message = ''Cannot read properties of undefined (reading '' @
                                     [CHR 0x27] @ ''Response'' @ [CHR 0x27] @ '')'',
                        ce_details = None\<rparr>]\<rparr> \<and>
   getRates
     [(''ups'', UpsCarrier default_config
         (scripted [token_ok,
            http_ok (RateBody \<lparr>RateResponse = Some
              \<lparr>Response = Some \<lparr>ResponseStatus = None, Alert = None\<rparr>,
               RatedShipment = None\<rparr>\<rparr>)]) fresh_world)]
     0 valid_request =
   Inr \<lparr>timestamp = 0, quotes = [],
        errors = Some [\<lparr>ce_code = ''INVALID_REQUEST'',
                        ce_message = ''Cannot read properties of undefined (reading '' @
                                     [CHR 0x27] @ ''Code'' @ [CHR 0x27] @ '')'',
                        ce_details = None\<rparr>]\<rparr>"
  by code_simp


subsection \<open>The service: aggregation over all carriers\<close>








subsection \<open>The token manager\<close>

text \<open>
  What a request through the transport client leaves unchanged, and what a successful
  one has received.
\<close>

lemma requestWithRetry_frame:
  assumes "requestWithRetry cfg net rq w = (r, w')"
  shows "\<exists>n. sent w' = sent w @ replicate n rq \<and> (1 \<le> retryAttempts cfg \<longrightarrow> 0 < n)"
    and "cache w' = cache w" and "authHeader w' = authHeader w" and "clock w \<le> clock w'"
proof -
  have "(\<exists>n. sent w' = sent w @ replicate n rq \<and> (1 \<le> retryAttempts cfg \<longrightarrow> 0 < n)) \<and>
      cache w' = cache w \<and> authHeader w' = authHeader w \<and> clock w \<le> clock w'"
  proof (cases "1 \<le> retryAttempts cfg")
    case False
    with assms have "w' = w" by (simp add: requestWithRetry_disabled)
    with False show ?thesis by (auto intro: exI [of _ 0])
  next
    case True
    from assms have "requestWithRetry_loop cfg net rq 1 None w = (r, w')"
      by (simp add: requestWithRetry_def)
    from loop_run [OF this _ True] show ?thesis by blast
  qed
  then show "\<exists>n. sent w' = sent w @ replicate n rq \<and> (1 \<le> retryAttempts cfg \<longrightarrow> 0 < n)"
    and "cache w' = cache w" and "authHeader w' = authHeader w" and "clock w \<le> clock w'"
    by blast+
qed

lemma getToken_cached:
  "cache w = Some c \<Longrightarrow> clock w < expiresAt c \<Longrightarrow> getToken cfg net w = (Inr (token c), w)"
  by (simp add: getToken_def)

lemma getToken_refresh:
  "cache w = None \<or> (\<exists>c. cache w = Some c \<and> \<not> clock w < expiresAt c) \<Longrightarrow>
   getToken cfg net w = fetchToken cfg net w"
  by (auto simp add: getToken_def)

lemma fetchToken_sent:
  assumes "fetchToken cfg net w = (r, w')"
  shows "\<exists>n. sent w' = sent w @ replicate n (token_request cfg) \<and>
             (1 \<le> retryAttempts cfg \<longrightarrow> 0 < n)"
proof -
  obtain r0 w0 where run: "requestWithRetry cfg net (token_request cfg) w = (r0, w0)"
    by (cases "requestWithRetry cfg net (token_request cfg) w")
  from assms run have "sent w' = sent w0"
    by (auto simp add: fetchToken_def split: sum.splits wire_body.splits option.splits if_splits thrown.splits)
  with requestWithRetry_frame(1) [OF run] show ?thesis by simp
qed

lemma requestWithRetry_success:
  assumes "requestWithRetry cfg net rq w = (Inr d, w')"
  shows "\<exists>n. sent w' = sent w @ replicate (Suc n) rq \<and>
             outcome (net (length (sent w) + n) rq) = Resolved d"
proof (cases "1 \<le> retryAttempts cfg")
  case False
  with assms show ?thesis by (simp add: requestWithRetry_disabled)
next
  case True
  from assms have "requestWithRetry_loop cfg net rq 1 None w = (Inr d, w')"
    by (simp add: requestWithRetry_def)
  from loop_run [OF this _ True]
  obtain n where n: "sent w' = sent w @ replicate (Suc n) rq"
    "case outcome (net (length (sent w) + n) rq) of
       Resolved d' \<Rightarrow> (Inr d :: CarrierIntegrationError + wire_body) = Inr d'
     | Threw err \<Rightarrow> (Inr d :: CarrierIntegrationError + wire_body) =
           Inl (handleError err (httpMethod rq) (url rq)) \<and>
         (\<not> isRetryableError (handleError err (httpMethod rq) (url rq)) \<or>
          1 + int n = retryAttempts cfg)"
    by auto
  from n(2) have "outcome (net (length (sent w) + n) rq) = Resolved d"
    by (cases "outcome (net (length (sent w) + n) rq)") simp_all
  with n(1) show ?thesis by blast
qed

lemma fetchToken_success:
  assumes "fetchToken cfg net w = (Inr tok, w')"
  shows "\<exists>n t. sent w' = sent w @ replicate (Suc n) (token_request cfg) \<and>
      outcome (net (length (sent w) + n) (token_request cfg)) = Resolved (TokenBody t) \<and>
      access_token t = Some tok \<and> tok \<noteq> [] \<and>
      cache w' = Some \<lparr>token = tok,
                        expiresAt = clock w' + (expires_in t - tokenRefreshBufferSecs) * 1000\<rparr>"
proof -
  obtain r0 w0 where run: "requestWithRetry cfg net (token_request cfg) w = (r0, w0)"
    by (cases "requestWithRetry cfg net (token_request cfg) w")
  from assms run obtain t where t: "r0 = Inr (TokenBody t)" "access_token t = Some tok" "tok \<noteq> []"
    "w' = w0\<lparr>cache := Some \<lparr>token = tok,
                 expiresAt = clock w0 + (expires_in t - tokenRefreshBufferSecs) * 1000\<rparr>\<rparr>"
    by (auto simp add: fetchToken_def
        split: sum.splits wire_body.splits option.splits if_splits thrown.splits)
  from requestWithRetry_success [OF run [unfolded t(1)]] t show ?thesis by auto
qed

lemma fetchToken_failure:
  assumes "fetchToken cfg net w = (Inl e, w')"
  shows "cache w' = cache w"
proof -
  obtain r0 w0 where run: "requestWithRetry cfg net (token_request cfg) w = (r0, w0)"
    by (cases "requestWithRetry cfg net (token_request cfg) w")
  from assms run have "w' = w0"
    by (auto simp add: fetchToken_def
        split: sum.splits wire_body.splits option.splits if_splits thrown.splits)
  with requestWithRetry_frame(2) [OF run] show ?thesis by simp
qed

lemma token_request_shape:
  "httpMethod (token_request cfg) = ''POST'' \<and>
   url (token_request cfg) = oauth2TokenUrl cfg \<and>
   map_of (headers (token_request cfg)) ''Authorization'' =
     Some (''Basic '' @ base64 (clientId cfg @ '':'' @ clientSecret cfg)) \<and>
   payload (token_request cfg) = FormParams [(''grant_type'', ''client_credentials'')]"
  by (simp add: token_request_def merge_headers_def)

lemma token_calls_append:
  "sent w' = sent w @ replicate n rq \<Longrightarrow>
   token_calls cfg w' = token_calls cfg w + (if url rq = oauth2TokenUrl cfg then n else 0)"
  by (simp add: token_calls_def)

lemma post_frame:
  assumes "post cfg net defaults u d hs w = (r, w')" and "u \<noteq> oauth2TokenUrl cfg"
  shows "token_calls cfg w' = token_calls cfg w" and "cache w' = cache w"
    and "clock w \<le> clock w'"
proof -
  let ?rq = "\<lparr>httpMethod = ''POST'', url = u, headers = merge_headers defaults hs, payload = d\<rparr>"
  from assms(1) have run: "requestWithRetry cfg net ?rq w = (r, w')"
    by (simp add: post_def)
  from requestWithRetry_frame(1) [OF run] obtain n where "sent w' = sent w @ replicate n ?rq"
    by blast
  from token_calls_append [OF this, of cfg] assms(2)
  show "token_calls cfg w' = token_calls cfg w" by simp
  from requestWithRetry_frame(2,4) [OF run]
  show "cache w' = cache w" and "clock w \<le> clock w'" by simp_all
qed

lemma UpsCarrier_getRates_after_token:
  assumes g: "getToken cfg net w = (Inr tok, w1)"
    and v: "validateRequest request = None"
    and u: "oauth2TokenUrl cfg \<noteq> ratingApiUrl cfg"
    and run: "UpsCarrier_getRates cfg net request w = (r, w')"
  shows "token_calls cfg w' = token_calls cfg w1 \<and> cache w' = cache w1"
proof -
  let ?w2 = "w1\<lparr>authHeader := Some (''Bearer '' @ tok)\<rparr>"
  obtain r3 w3 where p: "post cfg net (rating_defaults ?w2) (ratingApiUrl cfg)
      (RateData request) [] ?w2 = (r3, w3)"
    by (cases "post cfg net (rating_defaults ?w2) (ratingApiUrl cfg) (RateData request) [] ?w2")
  from run g v p have "w' = w3"
    by (auto simp add: UpsCarrier_getRates_def Let_def split: sum.splits)
  moreover from post_frame(1,2) [OF p] u
  have "token_calls cfg w3 = token_calls cfg ?w2" "cache w3 = cache ?w2" by simp_all
  moreover have "token_calls cfg ?w2 = token_calls cfg w1" by (simp add: token_calls_def)
  ultimately show ?thesis by simp
qed

text \<open>
  A rate request of the adapter that starts without a cached token and whose first
  token exchange succeeds calls the token endpoint once and caches the token.
\<close>

lemma UpsCarrier_getRates_first:
  assumes u: "oauth2TokenUrl cfg \<noteq> ratingApiUrl cfg" and lim: "1 \<le> retryAttempts cfg"
    and v: "validateRequest request = None" and c: "cache w = None"
    and o: "outcome (net (length (sent w)) (token_request cfg)) = Resolved (TokenBody t)"
    and a: "access_token t = Some tok" "tok \<noteq> []"
    and run: "UpsCarrier_getRates cfg net request w = (r, w')"
  shows "token_calls cfg w' = token_calls cfg w + 1 \<and>
     cache w' = Some \<lparr>token = tok,
       expiresAt = clock w + int (took (net (length (sent w)) (token_request cfg))) +
                   (expires_in t - 30) * 1000\<rparr>"
proof -
  let ?w1 = "w\<lparr>sent := sent w @ [token_request cfg],
               clock := clock w + int (took (net (length (sent w)) (token_request cfg)))\<rparr>"
  let ?w2 = "?w1\<lparr>cache := Some \<lparr>token = tok,
       expiresAt = clock ?w1 + (expires_in t - tokenRefreshBufferSecs) * 1000\<rparr>\<rparr>"
  have "requestWithRetry cfg net (token_request cfg) w = (Inr (TokenBody t), ?w1)"
    using lim o by (simp add: requestWithRetry_def loop_resolved)
  then have "fetchToken cfg net w = (Inr tok, ?w2)"
    using a by (simp add: fetchToken_def)
  then have g: "getToken cfg net w = (Inr tok, ?w2)"
    using c by (simp add: getToken_def)
  have "token_calls cfg ?w2 = token_calls cfg w + 1"
    by (simp add: token_calls_def token_request_def)
  with UpsCarrier_getRates_after_token [OF g v u run] show ?thesis
    by (simp add: tokenRefreshBufferSecs_def)
qed

text \<open>
  C3. (1) With a cached token whose recorded expiry is later than the clock, \<open>getToken\<close>
  returns it and leaves the state as it is: nothing is sent. (2) Otherwise every request
  it sends is the token request, at least one when the attempt limit is positive; when
  it returns a token, the last response carried that token, and the cache holds it with
  \<open>expiresAt = now + (expires_in - 30) * 1000\<close>, \<open>now\<close> being the clock when the response
  has arrived; when it fails the cache is unchanged. (3) The token request is a
  \<^verbatim>\<open>POST\<close> to the token URL with \<^verbatim>\<open>Authorization: Basic base64(clientId:clientSecret)\<close> and
  the form body \<^verbatim>\<open>grant_type=client_credentials\<close>. (4) Two rate requests in sequence, the
  first starting without a token and receiving one at its first exchange, the second
  starting at any later instant before that token's recorded expiry, call the token
  endpoint exactly once.
\<close>

theorem getToken_caching:
  "(cache w = Some c \<and> clock w < expiresAt c \<longrightarrow> getToken cfg net w = (Inr (token c), w)) \<and>
   ((cache w = None \<or> (\<exists>c'. cache w = Some c' \<and> \<not> clock w < expiresAt c')) \<and>
    getToken cfg net w = (r, w') \<longrightarrow>
      (\<exists>n. sent w' = sent w @ replicate n (token_request cfg) \<and>
           (1 \<le> retryAttempts cfg \<longrightarrow> 0 < n)) \<and>
      (\<forall>tok. r = Inr tok \<longrightarrow>
         (\<exists>n t. sent w' = sent w @ replicate (Suc n) (token_request cfg) \<and>
            outcome (net (length (sent w) + n) (token_request cfg)) = Resolved (TokenBody t) \<and>
            access_token t = Some tok \<and>
            cache w' = Some \<lparr>token = tok,
                              expiresAt = clock w' + (expires_in t - 30) * 1000\<rparr>)) \<and>
      (\<forall>e. r = Inl e \<longrightarrow> cache w' = cache w)) \<and>
   (httpMethod (token_request cfg) = ''POST'' \<and>
    url (token_request cfg) = oauth2TokenUrl cfg \<and>
    map_of (headers (token_request cfg)) ''Authorization'' =
      Some (''Basic '' @ base64 (clientId cfg @ '':'' @ clientSecret cfg)) \<and>
    payload (token_request cfg) = FormParams [(''grant_type'', ''client_credentials'')]) \<and>
   (oauth2TokenUrl cfg \<noteq> ratingApiUrl cfg \<and> 1 \<le> retryAttempts cfg \<and>
    validateRequest rq1 = None \<and> validateRequest rq2 = None \<and> cache w0 = None \<and>
    outcome (net (length (sent w0)) (token_request cfg)) = Resolved (TokenBody t0) \<and>
    access_token t0 = Some tok0 \<and> tok0 \<noteq> [] \<and>
    UpsCarrier_getRates cfg net rq1 w0 = (r1, w1) \<and>
    UpsCarrier_getRates cfg net rq2 (w1\<lparr>clock := later\<rparr>) = (r2, w2) \<and>
    later < clock w0 + int (took (net (length (sent w0)) (token_request cfg))) +
            (expires_in t0 - 30) * 1000 \<longrightarrow>
    token_calls cfg w2 = token_calls cfg w0 + 1)"
proof (intro conjI impI)
  assume "cache w = Some c \<and> clock w < expiresAt c"
  then show "getToken cfg net w = (Inr (token c), w)"
    by (simp add: getToken_cached)
next
  assume h: "(cache w = None \<or> (\<exists>c'. cache w = Some c' \<and> \<not> clock w < expiresAt c')) \<and>
    getToken cfg net w = (r, w')"
  then have f: "fetchToken cfg net w = (r, w')"
    using getToken_refresh [of w cfg net] by auto
  from fetchToken_sent [OF f]
  show "\<exists>n. sent w' = sent w @ replicate n (token_request cfg) \<and>
           (1 \<le> retryAttempts cfg \<longrightarrow> 0 < n)" .
  show "\<forall>tok. r = Inr tok \<longrightarrow>
         (\<exists>n t. sent w' = sent w @ replicate (Suc n) (token_request cfg) \<and>
            outcome (net (length (sent w) + n) (token_request cfg)) = Resolved (TokenBody t) \<and>
            access_token t = Some tok \<and>
            cache w' = Some \<lparr>token = tok,
                              expiresAt = clock w' + (expires_in t - 30) * 1000\<rparr>)"
  proof (intro allI impI)
    fix tok assume "r = Inr tok"
    with f have "fetchToken cfg net w = (Inr tok, w')" by simp
    from fetchToken_success [OF this]
    show "\<exists>n t. sent w' = sent w @ replicate (Suc n) (token_request cfg) \<and>
            outcome (net (length (sent w) + n) (token_request cfg)) = Resolved (TokenBody t) \<and>
            access_token t = Some tok \<and>
            cache w' = Some \<lparr>token = tok,
                              expiresAt = clock w' + (expires_in t - 30) * 1000\<rparr>"
      by (auto simp add: tokenRefreshBufferSecs_def)
  qed
  show "\<forall>e. r = Inl e \<longrightarrow> cache w' = cache w"
    using f fetchToken_failure by blast
next
  show "httpMethod (token_request cfg) = ''POST''"
    and "url (token_request cfg) = oauth2TokenUrl cfg"
    and "map_of (headers (token_request cfg)) ''Authorization'' =
      Some (''Basic '' @ base64 (clientId cfg @ '':'' @ clientSecret cfg))"
    and "payload (token_request cfg) = FormParams [(''grant_type'', ''client_credentials'')]"
    using token_request_shape [of cfg] by simp_all
next
  assume h: "oauth2TokenUrl cfg \<noteq> ratingApiUrl cfg \<and> 1 \<le> retryAttempts cfg \<and>
    validateRequest rq1 = None \<and> validateRequest rq2 = None \<and> cache w0 = None \<and>
    outcome (net (length (sent w0)) (token_request cfg)) = Resolved (TokenBody t0) \<and>
    access_token t0 = Some tok0 \<and> tok0 \<noteq> [] \<and>
    UpsCarrier_getRates cfg net rq1 w0 = (r1, w1) \<and>
    UpsCarrier_getRates cfg net rq2 (w1\<lparr>clock := later\<rparr>) = (r2, w2) \<and>
    later < clock w0 + int (took (net (length (sent w0)) (token_request cfg))) +
            (expires_in t0 - 30) * 1000"
  let ?c = "\<lparr>token = tok0,
       expiresAt = clock w0 + int (took (net (length (sent w0)) (token_request cfg))) +
                   (expires_in t0 - 30) * 1000\<rparr>"
  from h have first: "token_calls cfg w1 = token_calls cfg w0 + 1" "cache w1 = Some ?c"
    using UpsCarrier_getRates_first [of cfg rq1 w0 net t0 tok0 r1 w1] by simp_all
  from h first(2)
  have "getToken cfg net (w1\<lparr>clock := later\<rparr>) = (Inr (token ?c), w1\<lparr>clock := later\<rparr>)"
    by (intro getToken_cached) simp_all
  from UpsCarrier_getRates_after_token [OF this, of rq2 r2 w2] h
  have "token_calls cfg w2 = token_calls cfg (w1\<lparr>clock := later\<rparr>)" by simp
  then have "token_calls cfg w2 = token_calls cfg w1" by (simp add: token_calls_def)
  with first(1) show "token_calls cfg w2 = token_calls cfg w0 + 1" by simp
qed

text \<open>
  The scenario of the test \<^verbatim>\<open>should reuse cached token for multiple requests\<close>, with the
  default configuration and a token valid for 3600 seconds.
\<close>

lemma reuse_first_request:
  "cache (snd (UpsCarrier_getRates default_config reuse_net valid_request fresh_world)) =
     Some \<lparr>token = ''test_token'', expiresAt = 1700003570005\<rparr>"
  "clock (snd (UpsCarrier_getRates default_config reuse_net valid_request fresh_world)) =
     1700000000010"
  "fst (UpsCarrier_getRates default_config reuse_net valid_request fresh_world) =
     Fulfilled \<lparr>timestamp = 1700000000010, quotes = [], errors = None\<rparr>"
  by code_simp+

lemma reuse_hypotheses:
  "oauth2TokenUrl default_config \<noteq> ratingApiUrl default_config"
  "1 \<le> retryAttempts default_config"
  "validateRequest valid_request = None"
  "cache fresh_world = None"
  "outcome (reuse_net (length (sent fresh_world)) (token_request default_config)) =
     Resolved (TokenBody \<lparr>access_token = Some ''test_token'', token_type = Some ''Bearer'',
                           expires_in = 3600\<rparr>)"
  "clock fresh_world +
     int (took (reuse_net (length (sent fresh_world)) (token_request default_config))) +
     (3600 - 30) * 1000 = 1700003570005"
  "token_calls default_config fresh_world = 0"
  "base64 (clientId default_config @ '':'' @ clientSecret default_config) =
     ''dGVzdF9jbGllbnRfaWQ6dGVzdF9jbGllbnRfc2VjcmV0''"
  by code_simp+

theorem getToken_caching_witness:
  "(1700000060000 :: int) < 1700000000005 + (3600 - 30) * 1000 \<and>
   getToken default_config reuse_net
     (snd (UpsCarrier_getRates default_config reuse_net valid_request fresh_world)) =
     (Inr ''test_token'',
      snd (UpsCarrier_getRates default_config reuse_net valid_request fresh_world)) \<and>
   cache (snd (UpsCarrier_getRates default_config reuse_net valid_request fresh_world)) =
     Some \<lparr>token = ''test_token'', expiresAt = 1700000000005 + (3600 - 30) * 1000\<rparr> \<and>
   cache fresh_world = None \<and>
   fst (getToken default_config reuse_net fresh_world) = Inr ''test_token'' \<and>
   sent (snd (getToken default_config reuse_net fresh_world)) = [token_request default_config] \<and>
   cache (snd (getToken default_config reuse_net fresh_world)) =
     Some \<lparr>token = ''test_token'',
           expiresAt = clock (snd (getToken default_config reuse_net fresh_world)) +
                       (3600 - 30) * 1000\<rparr> \<and>
   map_of (headers (token_request default_config)) ''Authorization'' =
     Some ''Basic dGVzdF9jbGllbnRfaWQ6dGVzdF9jbGllbnRfc2VjcmV0'' \<and>
   token_calls default_config
     (snd (UpsCarrier_getRates default_config reuse_net valid_request
        ((snd (UpsCarrier_getRates default_config reuse_net valid_request fresh_world))
         \<lparr>clock := 1700000060000\<rparr>))) = 1"
proof -
  let ?g = "getToken default_config reuse_net fresh_world"
  have g: "fst ?g = Inr ''test_token''" "sent (snd ?g) = [token_request default_config]"
    "sent fresh_world = []"
    by code_simp+
  have h: "(cache fresh_world = None \<or>
      (\<exists>c'. cache fresh_world = Some c' \<and> \<not> clock fresh_world < expiresAt c')) \<and>
      ?g = (fst ?g, snd ?g)"
    by (simp add: fresh_world_def)
  have "\<forall>tok. fst ?g = Inr tok \<longrightarrow>
         (\<exists>n t. sent (snd ?g) =
              sent fresh_world @ replicate (Suc n) (token_request default_config) \<and>
            outcome (reuse_net (length (sent fresh_world) + n) (token_request default_config)) =
              Resolved (TokenBody t) \<and>
            access_token t = Some tok \<and>
            cache (snd ?g) = Some \<lparr>token = tok,
                              expiresAt = clock (snd ?g) + (expires_in t - 30) * 1000\<rparr>)"
    using getToken_caching [where cfg = default_config and net = reuse_net
        and w = fresh_world and r = "fst ?g" and w' = "snd ?g",
        THEN conjunct2, THEN conjunct1, THEN mp, OF h]
    by blast
  with g(1) obtain n t where nt: "sent (snd ?g) = sent fresh_world @ replicate (Suc n) (token_request default_config)"
    "outcome (reuse_net (length (sent fresh_world) + n) (token_request default_config)) =
       Resolved (TokenBody t)"
    "cache (snd ?g) = Some \<lparr>token = ''test_token'',
        expiresAt = clock (snd ?g) + (expires_in t - 30) * 1000\<rparr>"
    by blast
  from nt(1) g(2,3) have "n = 0" by simp
  with nt(2) g(3) have "expires_in t = 3600"
    by (auto simp add: reuse_net_def token_ok_def http_ok_def)
  with nt(3) have miss: "cache (snd ?g) = Some \<lparr>token = ''test_token'',
        expiresAt = clock (snd ?g) + (3600 - 30) * 1000\<rparr>"
    by simp
  let ?w1 = "snd (UpsCarrier_getRates default_config reuse_net valid_request fresh_world)"
  let ?w1' = "?w1\<lparr>clock := 1700000060000\<rparr>"
  let ?w2 = "snd (UpsCarrier_getRates default_config reuse_net valid_request ?w1')"
  let ?c = "\<lparr>token = ''test_token'', expiresAt = 1700003570005\<rparr>"
  let ?t = "\<lparr>access_token = Some ''test_token'', token_type = Some ''Bearer'',
            expires_in = 3600\<rparr>"
  note inst = getToken_caching [where cfg = default_config and net = reuse_net
      and w = ?w1 and c = ?c and ?w0.0 = fresh_world and ?rq1.0 = valid_request
      and ?rq2.0 = valid_request and ?t0.0 = ?t and ?tok0.0 = "''test_token''"
      and ?r1.0 = "fst (UpsCarrier_getRates default_config reuse_net valid_request fresh_world)"
      and ?w1.0 = ?w1
      and ?r2.0 = "fst (UpsCarrier_getRates default_config reuse_net valid_request ?w1')"
      and ?w2.0 = ?w2 and later = 1700000060000]
  have hit: "getToken default_config reuse_net ?w1 = (Inr ''test_token'', ?w1)"
    using inst [THEN conjunct1] reuse_first_request(1,2) by simp
  have hdr: "map_of (headers (token_request default_config)) ''Authorization'' =
     Some ''Basic dGVzdF9jbGllbnRfaWQ6dGVzdF9jbGllbnRfc2VjcmV0''"
    using inst [THEN conjunct2, THEN conjunct2, THEN conjunct1] reuse_hypotheses(8) by simp
  have once: "token_calls default_config ?w2 = 1"
    using inst [THEN conjunct2, THEN conjunct2, THEN conjunct2] reuse_hypotheses
    by simp
  show ?thesis
    using hit hdr once reuse_first_request(1) miss g(1,2) reuse_hypotheses(4) by simp
qed


end
